theory Spec2Isabelle
  imports Main "HOL-Library.Word" "HOL-Library.AList"
begin

section \<open>Values of the server package\<close>

text \<open>
  The development embeds \<^verbatim>\<open>server/conn.go\<close>, \<^verbatim>\<open>server/options.go\<close> and
  \<^verbatim>\<open>server/server.go\<close>. Go integers are \<open>int\<close> (no arithmetic here can overflow),
  byte slices are lists of 8-bit words, Go maps are association lists with distinct keys
  (built with \<open>AList.update\<close>); the order in which a \<^verbatim>\<open>range\<close> walks a map is not
  given by the list, it is an explicit argument wherever the code depends on it.
\<close>

type_synonym bytes = "8 word list"

text \<open>Error values: the package's sentinels that the three files use, errors handed back
  by the transports and libraries, and Go's run-time errors (which are error values too).\<close>

datatype error =
    ErrConstructed
  | ErrCanNotSupportNetwork
  | ErrWebsocketIllegalMessageType
  | ErrWebsocketMessageTypeException
  | ErrNotWebsocketUseMessageType
  | ErrExternal string
  | ErrRuntime string

text \<open>What a \<^verbatim>\<open>panic\<close> carries is any value; \<^verbatim>\<open>recover\<close> hands it back and the
  code asks whether it is an error (\<^verbatim>\<open>err.(error)\<close>).\<close>

datatype fault = FaultError error | FaultValue string

definition nilPointerDereference :: fault where
  "nilPointerDereference = FaultError (ErrRuntime ''invalid memory address or nil pointer dereference'')"

definition sendOnClosedChannel :: fault where
  "sendOnClosedChannel = FaultError (ErrRuntime ''send on closed channel'')"

definition closeOfClosedChannel :: fault where
  "closeOfClosedChannel = FaultError (ErrRuntime ''close of closed channel'')"

text \<open>How a call ends: it returns, it panics (the state changes made so far stay), or it is
  suspended on a channel operation with no partner.\<close>

datatype outcome = Done | Panic fault | Block

datatype Network =
    NetworkTcp | NetworkTcp4 | NetworkTcp6
  | NetworkUdp | NetworkUdp4 | NetworkUdp6
  | NetworkUnix | NetworkHttp | NetworkWebsocket | NetworkKcp | NetworkGRPC
  | NetworkOther string

definition WebsocketMessageTypeText :: int where "WebsocketMessageTypeText = 1"
definition WebsocketMessageTypeBinary :: int where "WebsocketMessageTypeBinary = 2"
definition WebsocketMessageTypeClose :: int where "WebsocketMessageTypeClose = 8"
definition WebsocketMessageTypePing :: int where "WebsocketMessageTypePing = 9"
definition WebsocketMessageTypePong :: int where "WebsocketMessageTypePong = 10"

text \<open>The case list shared by the two WebSocket options of \<^verbatim>\<open>options.go\<close>.\<close>

definition validWebsocketMessageType :: "int \<Rightarrow> bool" where
  "validWebsocketMessageType messageType \<longleftrightarrow>
     messageType = WebsocketMessageTypeText \<or> messageType = WebsocketMessageTypeBinary \<or>
     messageType = WebsocketMessageTypeClose \<or> messageType = WebsocketMessageTypePing \<or>
     messageType = WebsocketMessageTypePong"

section \<open>Connections (conn.go)\<close>

text \<open>
  A transport handle (gorilla's \<^verbatim>\<open>*websocket.Conn\<close>, \<^verbatim>\<open>gnet.Conn\<close>, a KCP session) is
  library code; the model keeps of it whether it was closed and what was written to it.
  \<open>BinaryMessage\<close> is gorilla's constant 2. A write to a closed handle hands back an
  error and sends nothing.
\<close>

datatype written = WsFrame int bytes | RawWrite bytes

record handle =
  h_closed :: bool
  h_sent :: "written list"

definition BinaryMessage :: int where "BinaryMessage = 2"

definition handle_send :: "handle \<Rightarrow> written \<Rightarrow> error option \<times> handle" where
  "handle_send h w =
     (if h_closed h then (Some (ErrExternal ''use of closed network connection''), h)
      else (None, h\<lparr>h_sent := h_sent h @ [w]\<rparr>))"

definition handle_close :: "handle \<Rightarrow> handle" where
  "handle_close h = h\<lparr>h_closed := True\<rparr>"

text \<open>The \<^verbatim>\<open>write\<close> field (here \<open>writef\<close>, \<open>write\<close> being a keyword) holds a closure over the handle the constructor was given;
  the closure is named by the handle it closes over, \<open>None\<close> is the nil function.\<close>

datatype writeFn = WsWriter | GNetWriter | KcpWriter

record Conn =
  ip :: string
  ws :: "handle option"
  gn :: "handle option"
  kcp :: "handle option"
  writef :: "writeFn option"
  data :: "(string \<times> string list) list"

definition newKcpConn :: "handle \<Rightarrow> string \<Rightarrow> Conn" where
  "newKcpConn session remoteAddr =
     \<lparr>ip = remoteAddr, ws = None, gn = None, kcp = Some session,
      writef = Some KcpWriter, data = []\<rparr>"

definition newGNetConn :: "handle \<Rightarrow> string \<Rightarrow> Conn" where
  "newGNetConn conn remoteAddr =
     \<lparr>ip = remoteAddr, ws = None, gn = Some conn, kcp = None,
      writef = Some GNetWriter, data = []\<rparr>"

definition newWebsocketConn :: "handle \<Rightarrow> string \<Rightarrow> Conn" where
  "newWebsocketConn wsh ipaddr =
     \<lparr>ip = ipaddr, ws = Some wsh, gn = None, kcp = None,
      writef = Some WsWriter, data = []\<rparr>"

text \<open>\<^verbatim>\<open>Write\<close> calls the stored function; calling the nil function panics. The
  WebSocket closure writes with \<open>BinaryMessage\<close>, whatever the server was configured with.\<close>

definition through :: "handle option \<Rightarrow> written \<Rightarrow> (error option \<times> handle option) \<times> outcome" where
  "through ho w =
     (case ho of
        None \<Rightarrow> ((None, None), Panic nilPointerDereference)
      | Some h \<Rightarrow> (case handle_send h w of (e, h') \<Rightarrow> ((e, Some h'), Done)))"

definition Write :: "Conn \<Rightarrow> bytes \<Rightarrow> (error option \<times> Conn) \<times> outcome" where
  "Write c d =
     (case writef c of
        None \<Rightarrow> ((None, c), Panic nilPointerDereference)
      | Some WsWriter \<Rightarrow>
          (case through (ws c) (WsFrame BinaryMessage d) of
             ((e, h), out) \<Rightarrow> ((e, c\<lparr>ws := h\<rparr>), out))
      | Some GNetWriter \<Rightarrow>
          (case through (gn c) (RawWrite d) of
             ((e, h), out) \<Rightarrow> ((e, c\<lparr>gn := h\<rparr>), out))
      | Some KcpWriter \<Rightarrow>
          (case through (kcp c) (RawWrite d) of
             ((e, h), out) \<Rightarrow> ((e, c\<lparr>kcp := h\<rparr>), out)))"

definition Close :: "Conn \<Rightarrow> Conn" where
  "Close c =
     (let c1 =
        (if ws c \<noteq> None then c\<lparr>ws := map_option handle_close (ws c)\<rparr>
         else if gn c \<noteq> None then c\<lparr>gn := map_option handle_close (gn c)\<rparr>
         else if kcp c \<noteq> None then c\<lparr>kcp := map_option handle_close (kcp c)\<rparr>
         else c)
      in c1\<lparr>writef := None\<rparr>)"

definition SetData :: "Conn \<Rightarrow> string \<Rightarrow> string list \<Rightarrow> Conn" where
  "SetData c k v = c\<lparr>data := AList.update k v (data c)\<rparr>"

definition GetData :: "Conn \<Rightarrow> string \<Rightarrow> string list option" where
  "GetData c k = map_of (data c) k"

definition ReleaseData :: "Conn \<Rightarrow> Conn" where
  "ReleaseData c = c\<lparr>data := []\<rparr>"

section \<open>Envelopes and the pool\<close>

text \<open>
  Modelled from the spec: the kind constants, the error directives and the types of the
  attributes are declared in \<^verbatim>\<open>message.go\<close>, which is not among the sources. The four
  kinds of the table in section 4.3 are numbered from 0 in the table's order, the two
  directives likewise; every other number is an unknown kind or directive.
\<close>

type_synonym MessageType = int

definition MessageTypePacket :: MessageType where "MessageTypePacket = 0"
definition MessageTypeError :: MessageType where "MessageTypeError = 1"
definition MessageTypeCross :: MessageType where "MessageTypeCross = 2"
definition MessageTypeTicker :: MessageType where "MessageTypeTicker = 3"

type_synonym MessageErrorAction = int

definition MessageErrorActionNone :: MessageErrorAction where "MessageErrorActionNone = 0"
definition MessageErrorActionShutdown :: MessageErrorAction where "MessageErrorActionShutdown = 1"

text \<open>An attribute is an \<^verbatim>\<open>any\<close>; the constructors are the dynamic types the engine puts
  into envelopes. A ticker callback is code of the caller: the model keeps how a call of
  it ends (\<open>None\<close>: it returns).\<close>

datatype attr =
    VConn Conn
  | VBytes bytes
  | VInt int
  | VInt64 int
  | VError error
  | VAction MessageErrorAction
  | VString string
  | VFunc "fault option"

record Message =
  t :: MessageType
  attrs :: "attr list"

text \<open>
  Modelled from the spec: \<^verbatim>\<open>synchronization.Pool\<close> is not among the sources. Section 4.2:
  \<^verbatim>\<open>Get\<close> reuses a released envelope or allocates, \<^verbatim>\<open>Release\<close> resets the envelope
  (with the function given at construction) and returns it to the free list, \<^verbatim>\<open>Close\<close>
  drains the pool and rejects further use. The allocating and the resetting function are
  the two closures \<^verbatim>\<open>Run\<close> passes to \<^verbatim>\<open>NewPool\<close>.
\<close>

record 'a Pool =
  bufferSize :: int
  buffers :: "'a list"
  generator :: "'a"
  releaser :: "'a \<Rightarrow> 'a"
  closed :: bool

definition poolClosed :: fault where
  "poolClosed = FaultError (ErrRuntime ''pool is closed'')"

definition NewPool :: "int \<Rightarrow> 'a \<Rightarrow> ('a \<Rightarrow> 'a) \<Rightarrow> 'a Pool" where
  "NewPool n g r = \<lparr>bufferSize = n, buffers = [], generator = g, releaser = r, closed = False\<rparr>"

definition Get :: "'a Pool \<Rightarrow> fault + ('a \<times> 'a Pool)" where
  "Get p =
     (if closed p then Inl poolClosed
      else (case buffers p of
              [] \<Rightarrow> Inr (generator p, p)
            | x # xs \<Rightarrow> Inr (x, p\<lparr>buffers := xs\<rparr>)))"

definition Release :: "'a Pool \<Rightarrow> 'a \<Rightarrow> fault + 'a Pool" where
  "Release p x =
     (if closed p then Inl poolClosed
      else Inr (p\<lparr>buffers := buffers p @ [releaser p x]\<rparr>))"

definition ClosePool :: "'a Pool \<Rightarrow> 'a Pool" where
  "ClosePool p = p\<lparr>buffers := [], closed := True\<rparr>"

text \<open>A shard queue is a buffered channel: its pending envelopes, oldest first, and whether
  it was closed. A send on a full queue (capacity 4096 * 1000) only suspends the producer
  until the dispatch loop has taken an envelope, so the bound is left out; a send on a
  closed channel panics.\<close>

record chan =
  queue :: "Message list"
  ch_closed :: bool

definition make_chan :: chan where
  "make_chan = \<lparr>queue = [], ch_closed = False\<rparr>"

definition send :: "chan \<Rightarrow> Message \<Rightarrow> chan option" where
  "send c m = (if ch_closed c then None else Some (c\<lparr>queue := queue c @ [m]\<rparr>))"

section \<open>The server (server.go, options.go)\<close>

text \<open>A cross-server link and the timer are collaborators behind an interface; the model
  keeps what \<^verbatim>\<open>Init\<close> hands back and how often \<^verbatim>\<open>Release\<close> was called.\<close>

record Cross =
  init_result :: "error option"
  cross_releases :: nat

record Ticker =
  ticker_size :: int
  ticker_caller :: bool
  ticker_releases :: nat

datatype Option =
    WithTicker int bool
  | WithCross string int Cross
  | WithTLS string string
  | WithGRPCServerOptions
  | WithProd
  | WithWebsocketWriteMessageType int
  | WithWebsocketMessageType "int list"
  | WithMessageBufferSize int
  | WithMultiCore int

text \<open>The calls of the event hooks (\<^verbatim>\<open>event.go\<close> is not among the sources, the hooks
  run code of the caller): the server records each call, and the environment says how the
  call ends. A hook that itself calls back into the server is outside the model.\<close>

datatype hook_call =
    StartBeforeEvent
  | StartFinishEvent
  | ConnectionOpenedEvent Conn
  | ConnectionClosedEvent Conn
  | ConnectionReceivePacketEvent Conn bytes
  | ConnectionReceiveWebsocketPacketEvent Conn bytes int
  | ReceiveCrossPacketEvent int bytes
  | MessageErrorEvent Message error
  | MessageLowExecEvent Message int

text \<open>The lines the code writes to the log, one constructor for each call site.\<close>

datatype log_entry =
    LogOptionWarn string
  | LogRunningInfo Network string
  | LogStopError error
  | LogShutdownException string error
  | LogShutdownNormal
  | LogDispatchFault MessageType "attr list" fault
  | LogLowExecCost MessageType int "attr list"
  | LogErrorWithStack string error
  | LogNotSupportAction MessageErrorAction
  | LogNotSupportType MessageType

text \<open>
  The fields of \<^verbatim>\<open>Server\<close>. \<open>event\<close> says that the event pointer is not nil;
  \<open>grpcServer\<close>, \<open>httpServer\<close> and \<open>gServer\<close> are \<open>None\<close> for nil and otherwise count
  the stop calls they received. \<open>closeChannel\<close> is unbuffered: \<open>closeChannelClosed\<close> says
  that it was closed, \<open>runWaiting\<close> that \<^verbatim>\<open>Run\<close> is suspended in its \<^verbatim>\<open>select\<close>,
  ready to receive from it. \<open>log\<close> and \<open>events\<close> are what an observer sees.
\<close>

record Server =
  event :: bool
  cross :: "(string \<times> Cross) list"
  id_srv :: int
  network :: Network
  addr :: string
  options :: "Option list"
  ginServer :: bool
  httpServer :: "nat option"
  grpcServer :: "nat option"
  supportMessageTypes :: "(int \<times> bool) list"
  certFile :: string
  keyFile :: string
  isShutdown :: bool
  closeChannelClosed :: bool
  runWaiting :: bool
  gServer :: "nat option"
  messagePool :: "Message Pool option"
  messagePoolSize :: int
  messageChannel :: "(int \<times> chan) list"
  initMessageChannel :: bool
  multiple :: bool
  prod_mode :: bool
  core :: int
  websocketWriteMessageType :: int
  ticker :: "Ticker option"
  log :: "log_entry list"
  events :: "hook_call list"

definition logs :: "log_entry \<Rightarrow> Server \<Rightarrow> Server" where
  "logs e s = s\<lparr>log := log s @ [e]\<rparr>"

subsection \<open>Options and the constructor\<close>

fun supports_loop :: "int list \<Rightarrow> (int \<times> bool) list \<times> Server \<Rightarrow> (int \<times> bool) list \<times> Server" where
  "supports_loop [] (supports, srv) = (supports, srv)"
| "supports_loop (messageType # messageTypes) (supports, srv) =
     (if validWebsocketMessageType messageType
      then supports_loop messageTypes (AList.update messageType True supports, srv)
      else supports_loop messageTypes (supports, logs (LogOptionWarn ''WitchWebsocketMessageType'') srv))"

fun apply_option :: "Option \<Rightarrow> Server \<Rightarrow> Server \<times> outcome" where
  "apply_option (WithTicker sz autonomy) srv =
     (if \<not> autonomy
      then (srv\<lparr>ticker := Some \<lparr>ticker_size = sz, ticker_caller = False, ticker_releases = 0\<rparr>\<rparr>, Done)
      else (srv\<lparr>ticker := Some \<lparr>ticker_size = sz, ticker_caller = True, ticker_releases = 0\<rparr>\<rparr>, Done))"
| "apply_option (WithCross crossName serverId c) srv =
     (let srv1 = srv\<lparr>id_srv := serverId\<rparr>;
          srv2 = srv1\<lparr>cross := AList.update crossName c (cross srv1)\<rparr>
      in (case init_result c of
            None \<Rightarrow> (srv2, Done)
          | Some err \<Rightarrow> (logs (LogOptionWarn ''WithCross'') srv2, Panic (FaultError err))))"
| "apply_option (WithTLS cert key) srv =
     (if network srv = NetworkHttp \<or> network srv = NetworkWebsocket
      then (srv\<lparr>certFile := cert, keyFile := key\<rparr>, Done)
      else (srv, Done))"
| "apply_option WithGRPCServerOptions srv =
     (if network srv \<noteq> NetworkGRPC then (srv, Done)
      else (srv\<lparr>grpcServer := Some 0\<rparr>, Done))"
| "apply_option WithProd srv = (srv\<lparr>prod_mode := True\<rparr>, Done)"
| "apply_option (WithWebsocketWriteMessageType messageType) srv =
     (if validWebsocketMessageType messageType
      then (srv\<lparr>websocketWriteMessageType := messageType\<rparr>, Done)
      else (logs (LogOptionWarn ''WithWebsocketWriteMessageType'') srv, Done))"
| "apply_option (WithWebsocketMessageType messageTypes) srv =
     (if network srv \<noteq> NetworkWebsocket
      then (logs (LogOptionWarn ''WitchWebsocketMessageType'') srv, Done)
      else (case supports_loop messageTypes ([], srv) of
              (supports, srv1) \<Rightarrow> (srv1\<lparr>supportMessageTypes := supports\<rparr>, Done)))"
| "apply_option (WithMessageBufferSize sz) srv =
     (if sz \<le> 0 then (srv, Done) else (srv\<lparr>messagePoolSize := sz\<rparr>, Done))"
| "apply_option (WithMultiCore count) srv =
     (let srv1 = srv\<lparr>core := count\<rparr>
      in if core srv1 < 1
         then ((logs (LogOptionWarn ''WithMultiCore'') srv1)\<lparr>core := 1\<rparr>, Done)
         else (srv1, Done))"

fun apply_options :: "Option list \<Rightarrow> Server \<Rightarrow> Server \<times> outcome" where
  "apply_options [] srv = (srv, Done)"
| "apply_options (opt # opts) srv =
     (case apply_option opt srv of
        (srv1, Done) \<Rightarrow> apply_options opts srv1
      | (srv1, out) \<Rightarrow> (srv1, out))"

definition New :: "Network \<Rightarrow> Option list \<Rightarrow> Server \<times> outcome" where
  "New net opts =
     (let server =
            \<lparr>event = True, cross = [], id_srv = 0, network = net, addr = [], options = opts,
             ginServer = False, httpServer = None, grpcServer = None,
             supportMessageTypes = [], certFile = [], keyFile = [],
             isShutdown = False, closeChannelClosed = False, runWaiting = False,
             gServer = None, messagePool = None, messagePoolSize = 0,
             messageChannel = [], initMessageChannel = False, multiple = False,
             prod_mode = False, core = 1,
             websocketWriteMessageType = WebsocketMessageTypeBinary,
             ticker = None, log = [], events = []\<rparr>;
          server1 =
            (if net = NetworkHttp then server\<lparr>ginServer := True, httpServer := Some 0\<rparr>
             else if net = NetworkGRPC then server\<lparr>grpcServer := Some 0\<rparr>
             else server)
      in apply_options opts server1)"

subsection \<open>The environment of a call\<close>

text \<open>
  What the code cannot decide by itself comes in as an argument: how a hook call ends
  (\<open>None\<close>: every callback returned), what the listener calls hand back
  (\<^verbatim>\<open>net.Listen\<close> and \<^verbatim>\<open>kcp.ListenWithOptions\<close> for \<open>listen\<close>; \<^verbatim>\<open>Serve\<close>,
  \<^verbatim>\<open>gnet.Serve\<close> and \<^verbatim>\<open>ListenAndServe\<close> for \<open>serve\<close>, where \<open>None\<close> means that
  the listener keeps serving), what \<^verbatim>\<open>gnet.Stop\<close> and the HTTP server's
  \<^verbatim>\<open>Shutdown\<close> hand back, the text of \<^verbatim>\<open>debug.Stack()\<close>, and where a
  \<^verbatim>\<open>range\<close> over the shard map starts.
\<close>

record env =
  hooks :: "hook_call \<Rightarrow> fault option"
  listen :: "error option"
  serve :: "error option"
  gnetStop :: "error option"
  httpShutdown :: "error option"
  stack :: string
  pick :: nat

definition fire :: "env \<Rightarrow> hook_call \<Rightarrow> Server \<Rightarrow> Server \<times> outcome" where
  "fire e c s =
     (s\<lparr>events := events s @ [c]\<rparr>, (case hooks e c of None \<Rightarrow> Done | Some f \<Rightarrow> Panic f))"

text \<open>Sequencing: the next statement runs when the one before it returned.\<close>

definition andThen :: "Server \<times> outcome \<Rightarrow> (Server \<Rightarrow> Server \<times> outcome) \<Rightarrow> Server \<times> outcome" where
  "andThen r f = (case r of (s, Done) \<Rightarrow> f s | (s, out) \<Rightarrow> (s, out))"

subsection \<open>PushMessage\<close>

text \<open>Go leaves the order of a \<^verbatim>\<open>range\<close> over a map unspecified, and it differs from one
  loop to the next. \<open>range_first k m\<close> is the entry such a loop yields first when it starts
  at position \<open>k\<close> of the entries; there is none when the map is empty or nil.\<close>

definition range_first :: "nat \<Rightarrow> ('k \<times> 'v) list \<Rightarrow> ('k \<times> 'v) option" where
  "range_first k m = (if m = [] then None else Some (m ! (k mod length m)))"

text \<open>The envelope is stamped with the kind and the attributes; an error envelope gets the
  stack \<open>st\<close> of \<^verbatim>\<open>debug.Stack()\<close> as one more attribute.\<close>

definition stamp :: "Message \<Rightarrow> MessageType \<Rightarrow> attr list \<Rightarrow> string \<Rightarrow> Message" where
  "stamp msg messageType as st =
     (let msg1 = msg\<lparr>t := messageType, attrs := as\<rparr>
      in if t msg1 = MessageTypeError then msg1\<lparr>attrs := attrs msg1 @ [VString st]\<rparr> else msg1)"

text \<open>\<open>k\<close> is where the range over the shard map starts, \<open>st\<close> the stack text.\<close>

definition PushMessage ::
  "Server \<Rightarrow> nat \<Rightarrow> string \<Rightarrow> MessageType \<Rightarrow> attr list \<Rightarrow> Server \<times> outcome" where
  "PushMessage slf k st messageType as =
     (case messagePool slf of
        None \<Rightarrow> (slf, Panic nilPointerDereference)
      | Some p \<Rightarrow>
          (case Get p of
             Inl f \<Rightarrow> (slf, Panic f)
           | Inr (msg, p') \<Rightarrow>
               (let msg2 = stamp msg messageType as st;
                    s1 = slf\<lparr>messagePool := Some p'\<rparr>
                in (case range_first k (messageChannel s1) of
                      None \<Rightarrow> (s1, Done)
                    | Some (i, channel) \<Rightarrow>
                        (case send channel msg2 of
                           None \<Rightarrow> (s1, Panic sendOnClosedChannel)
                         | Some channel' \<Rightarrow>
                             (s1\<lparr>messageChannel := AList.update i channel' (messageChannel s1)\<rparr>,
                              Done))))))"

subsection \<open>Shutdown\<close>

text \<open>The loop that closes the shard queues; closing a closed channel panics. All entries
  are visited, so the order matters only for which entries are closed before such a panic;
  the model walks them in the order of the list.\<close>

fun close_all :: "(int \<times> chan) list \<Rightarrow> (int \<times> chan) list \<times> outcome" where
  "close_all [] = ([], Done)"
| "close_all ((i, c) # m) =
     (if ch_closed c then ((i, c) # m, Panic closeOfClosedChannel)
      else (case close_all m of (m', out) \<Rightarrow> ((i, c\<lparr>ch_closed := True\<rparr>) # m', out)))"

definition release_all :: "(string \<times> Cross) list \<Rightarrow> (string \<times> Cross) list" where
  "release_all cs = map (\<lambda>(n, c). (n, c\<lparr>cross_releases := Suc (cross_releases c)\<rparr>)) cs"

definition shutdown_pipeline :: "env \<Rightarrow> Server \<Rightarrow> Server \<times> outcome" where
  "shutdown_pipeline e slf =
     (if initMessageChannel slf then
        (let s1 = (case gServer slf of
                     None \<Rightarrow> slf
                   | Some n \<Rightarrow>
                       (case gnetStop e of
                          None \<Rightarrow> slf\<lparr>gServer := Some (Suc n)\<rparr>
                        | Some shutdownErr \<Rightarrow>
                            logs (LogStopError shutdownErr) (slf\<lparr>gServer := Some (Suc n)\<rparr>)))
         in (case close_all (messageChannel s1) of
               (m, Done) \<Rightarrow>
                 (case messagePool s1 of
                    None \<Rightarrow> (s1\<lparr>messageChannel := m\<rparr>, Panic nilPointerDereference)
                  | Some p \<Rightarrow>
                      (s1\<lparr>messageChannel := m, messagePool := Some (ClosePool p),
                          initMessageChannel := False\<rparr>, Done))
             | (m, out) \<Rightarrow> (s1\<lparr>messageChannel := m\<rparr>, out)))
      else (slf, Done))"

text \<open>The send on the unbuffered \<^verbatim>\<open>closeChannel\<close>. On a closed channel it panics. When
  \<^verbatim>\<open>Run\<close> waits in its \<^verbatim>\<open>select\<close> it receives the value, closes the channel and
  returns; that continuation of \<^verbatim>\<open>Run\<close> is taken in the same step. With no receiver
  the sender stays suspended.\<close>

definition send_closeChannel :: "Server \<Rightarrow> Server \<times> outcome" where
  "send_closeChannel slf =
     (if closeChannelClosed slf then (slf, Panic sendOnClosedChannel)
      else if runWaiting slf then (slf\<lparr>runWaiting := False, closeChannelClosed := True\<rparr>, Done)
      else (slf, Block))"

definition Shutdown :: "env \<Rightarrow> Server \<Rightarrow> error option \<Rightarrow> string list \<Rightarrow> Server \<times> outcome" where
  "Shutdown e slf err stk =
     (let s1 = slf\<lparr>isShutdown := True\<rparr>;
          s2 = s1\<lparr>ticker := map_option (\<lambda>tk. tk\<lparr>ticker_releases := Suc (ticker_releases tk)\<rparr>) (ticker s1)\<rparr>;
          s3 = s2\<lparr>cross := release_all (cross s2)\<rparr>
      in andThen (shutdown_pipeline e s3) (\<lambda>s4.
           (let s5 = s4\<lparr>grpcServer := map_option Suc (grpcServer s4)\<rparr>;
                s6 = (case httpServer s5 of
                        None \<Rightarrow> s5
                      | Some n \<Rightarrow>
                          (case httpShutdown e of
                             None \<Rightarrow> s5\<lparr>httpServer := Some (Suc n)\<rparr>
                           | Some shutdownErr \<Rightarrow>
                               logs (LogStopError shutdownErr) (s5\<lparr>httpServer := Some (Suc n)\<rparr>)))
            in (case err of
                  Some er \<Rightarrow>
                    send_closeChannel
                      (logs (LogShutdownException (case stk of [] \<Rightarrow> [] | x # _ \<Rightarrow> x) er) s6)
                | None \<Rightarrow> (logs LogShutdownNormal s6, Done)))))"

subsection \<open>dispatchMessage\<close>

text \<open>
  Modelled from the spec: the decoders of \<^verbatim>\<open>message.go\<close> are not among the sources.
  Section 4.3 gives the attributes of each kind; section 3 says that the decode step fails
  when the attributes do not have that shape.
\<close>

definition decodeFault :: fault where
  "decodeFault = FaultError (ErrRuntime ''message attributes do not match the message type'')"

fun deconstructPacket :: "attr list \<Rightarrow> fault + (Conn \<times> bytes)" where
  "deconstructPacket [VConn conn, VBytes packet] = Inr (conn, packet)"
| "deconstructPacket _ = Inl decodeFault"

fun deconstructWebSocketPacket :: "attr list \<Rightarrow> fault + (Conn \<times> bytes \<times> int)" where
  "deconstructWebSocketPacket [VConn conn, VBytes packet, VInt messageType] = Inr (conn, packet, messageType)"
| "deconstructWebSocketPacket _ = Inl decodeFault"

fun deconstructError :: "attr list \<Rightarrow> fault + (error \<times> MessageErrorAction \<times> string)" where
  "deconstructError [VError err, VAction action, VString stk] = Inr (err, action, stk)"
| "deconstructError _ = Inl decodeFault"

fun deconstructCross :: "attr list \<Rightarrow> fault + (int \<times> bytes)" where
  "deconstructCross [VInt64 serverId, VBytes packet] = Inr (serverId, packet)"
| "deconstructCross _ = Inl decodeFault"

fun deconstructTicker :: "attr list \<Rightarrow> fault + fault option" where
  "deconstructTicker [VFunc caller] = Inr caller"
| "deconstructTicker _ = Inl decodeFault"

text \<open>The \<^verbatim>\<open>switch\<close> of \<^verbatim>\<open>dispatchMessage\<close>: the handler invocation.\<close>

definition handler :: "env \<Rightarrow> Server \<Rightarrow> Message \<Rightarrow> Server \<times> outcome" where
  "handler e slf msg =
     (if t msg = MessageTypePacket then
        (if network slf = NetworkWebsocket then
           (case deconstructWebSocketPacket (attrs msg) of
              Inl f \<Rightarrow> (slf, Panic f)
            | Inr (conn, packet, messageType) \<Rightarrow>
                fire e (ConnectionReceiveWebsocketPacketEvent conn packet messageType) slf)
         else
           (case deconstructPacket (attrs msg) of
              Inl f \<Rightarrow> (slf, Panic f)
            | Inr (conn, packet) \<Rightarrow> fire e (ConnectionReceivePacketEvent conn packet) slf))
      else if t msg = MessageTypeError then
        (case deconstructError (attrs msg) of
           Inl f \<Rightarrow> (slf, Panic f)
         | Inr (err, action, stk) \<Rightarrow>
             (if action = MessageErrorActionNone then (logs (LogErrorWithStack stk err) slf, Done)
              else if action = MessageErrorActionShutdown then Shutdown e slf (Some err) [stk]
              else (logs (LogNotSupportAction action) slf, Done)))
      else if t msg = MessageTypeCross then
        (case deconstructCross (attrs msg) of
           Inl f \<Rightarrow> (slf, Panic f)
         | Inr (serverId, packet) \<Rightarrow> fire e (ReceiveCrossPacketEvent serverId packet) slf)
      else if t msg = MessageTypeTicker then
        (case deconstructTicker (attrs msg) of
           Inl f \<Rightarrow> (slf, Panic f)
         | Inr caller \<Rightarrow> (slf, (case caller of None \<Rightarrow> Done | Some f \<Rightarrow> Panic f)))
      else (logs (LogNotSupportType (t msg)) slf, Done))"

text \<open>The deferred function of \<^verbatim>\<open>dispatchMessage\<close>, in three steps: \<^verbatim>\<open>recover\<close>,
  the cost check, the release. It runs when the handler returned or panicked; a panic
  raised inside it ends it there and leaves \<^verbatim>\<open>dispatchMessage\<close>. \<open>cost\<close> is what
  \<^verbatim>\<open>time.Since(present)\<close> measured, in nanoseconds.\<close>

definition recovered :: "env \<Rightarrow> Message \<Rightarrow> Server \<Rightarrow> outcome \<Rightarrow> Server \<times> outcome" where
  "recovered e msg slf out =
     (case out of
        Panic err \<Rightarrow>
          (let s1 = logs (LogDispatchFault (t msg) (attrs msg) err) slf
           in (case err of
                 FaultError er \<Rightarrow> fire e (MessageErrorEvent msg er) s1
               | FaultValue v \<Rightarrow> (s1, Done)))
      | _ \<Rightarrow> (slf, Done))"

definition low_exec :: "env \<Rightarrow> int \<Rightarrow> Message \<Rightarrow> Server \<Rightarrow> Server \<times> outcome" where
  "low_exec e cost msg slf =
     (if cost > 100 * 1000000
      then fire e (MessageLowExecEvent msg cost) (logs (LogLowExecCost (t msg) cost (attrs msg)) slf)
      else (slf, Done))"

definition release_message :: "Message \<Rightarrow> Server \<Rightarrow> Server \<times> outcome" where
  "release_message msg slf =
     (if \<not> isShutdown slf then
        (case messagePool slf of
           None \<Rightarrow> (slf, Panic nilPointerDereference)
         | Some p \<Rightarrow>
             (case Release p msg of
                Inl f \<Rightarrow> (slf, Panic f)
              | Inr p' \<Rightarrow> (slf\<lparr>messagePool := Some p'\<rparr>, Done)))
      else (slf, Done))"

definition boundary :: "env \<Rightarrow> int \<Rightarrow> Message \<Rightarrow> Server \<times> outcome \<Rightarrow> Server \<times> outcome" where
  "boundary e cost msg r =
     (case r of
        (slf, Block) \<Rightarrow> (slf, Block)
      | (slf, out) \<Rightarrow>
          andThen (recovered e msg slf out) (\<lambda>s1.
          andThen (low_exec e cost msg s1) (\<lambda>s2.
          release_message msg s2)))"

definition dispatchMessage :: "env \<Rightarrow> int \<Rightarrow> Server \<Rightarrow> Message \<Rightarrow> Server \<times> outcome" where
  "dispatchMessage e cost slf msg = boundary e cost msg (handler e slf msg)"

text \<open>The dispatch loop of one shard, \<^verbatim>\<open>for message := range messageChannel\<close>, over the
  envelopes it receives, oldest first, each with the cost of its dispatch. A panic that
  leaves \<^verbatim>\<open>dispatchMessage\<close> ends the loop (and the process); \<open>Done\<close> says that every
  envelope of the list was dispatched.\<close>

fun dispatch_loop :: "env \<Rightarrow> (Message \<times> int) list \<Rightarrow> Server \<Rightarrow> Server \<times> outcome" where
  "dispatch_loop e [] slf = (slf, Done)"
| "dispatch_loop e ((message, cost) # rest) slf =
     andThen (dispatchMessage e cost slf message) (dispatch_loop e rest)"

text \<open>Receiving from a shard queue hands over its pending envelopes; the loop of shard \<open>i\<close>
  then dispatches them.\<close>

definition pending :: "int \<Rightarrow> Server \<Rightarrow> Message list" where
  "pending i slf = (case map_of (messageChannel slf) i of None \<Rightarrow> [] | Some c \<Rightarrow> queue c)"

definition drained :: "int \<Rightarrow> Server \<Rightarrow> Server" where
  "drained i slf =
     (case map_of (messageChannel slf) i of
        None \<Rightarrow> slf
      | Some c \<Rightarrow> slf\<lparr>messageChannel := AList.update i (c\<lparr>queue := []\<rparr>) (messageChannel slf)\<rparr>)"

definition dispatch_shard :: "env \<Rightarrow> int \<Rightarrow> int list \<Rightarrow> Server \<Rightarrow> Server \<times> outcome" where
  "dispatch_shard e i costs slf = dispatch_loop e (zip (pending i slf) costs) (drained i slf)"

subsection \<open>Run\<close>

text \<open>The loop \<^verbatim>\<open>for i := 0; i < slf.core; i++\<close> that makes the shard queues.\<close>

function channels_loop :: "int \<Rightarrow> int \<Rightarrow> (int \<times> chan) list \<Rightarrow> (int \<times> chan) list" where
  "channels_loop i n m =
     (if i < n then channels_loop (i + 1) n (AList.update i make_chan m) else m)"
  by pat_completeness auto
termination
  by (relation "measure (\<lambda>(i, n, m). nat (n - i))") auto

declare channels_loop.simps [simp del]

text \<open>\<^verbatim>\<open>connectionInitHandle\<close> up to the two \<^verbatim>\<open>go\<close> statements: it provisions the
  pool and the shard queues. The callback and the dispatch loops it starts are tasks of
  their own (\<open>serve_task\<close>, \<open>dispatch_loop\<close>).\<close>

definition connectionInitHandle :: "Server \<Rightarrow> Server" where
  "connectionInitHandle slf =
     (let s1 = slf\<lparr>initMessageChannel := True\<rparr>;
          s2 = (if messagePoolSize s1 \<le> 0 then s1\<lparr>messagePoolSize := 100\<rparr> else s1);
          s3 = s2\<lparr>messagePool :=
                    Some (NewPool (messagePoolSize s2) \<lparr>t = 0, attrs = []\<rparr>
                            (\<lambda>d. d\<lparr>t := 0, attrs := []\<rparr>))\<rparr>;
          s4 = s3\<lparr>messageChannel := channels_loop 0 (core s3) []\<rparr>
      in (if network s4 \<noteq> NetworkHttp \<and> network s4 \<noteq> NetworkWebsocket
          then s4\<lparr>gServer := Some 0\<rparr> else s4))"

text \<open>The task that serves: the before-start hook, then the serve call of the listener;
  when that call hands back an error, the error is pushed with the shutdown directive.
  While the listener serves, the task stays inside the call.\<close>

definition serve_task :: "env \<Rightarrow> Server \<Rightarrow> Server \<times> outcome" where
  "serve_task e slf =
     andThen (fire e StartBeforeEvent slf) (\<lambda>s1.
       (case serve e of
          None \<Rightarrow> (s1, Block)
        | Some err \<Rightarrow>
            PushMessage s1 (pick e) (stack e) MessageTypeError
              [VError err, VAction MessageErrorActionShutdown]))"

text \<open>The KCP task: the before-start hook, then the accept loop, which skips a failed
  accept and never ends.\<close>

definition accept_task :: "env \<Rightarrow> Server \<Rightarrow> Server \<times> outcome" where
  "accept_task e slf = andThen (fire e StartBeforeEvent slf) (\<lambda>s1. (s1, Block))"

text \<open>The WebSocket address: what follows the first \<open>/\<close> is the pattern and is cut off.\<close>

definition websocket_addr :: "string \<Rightarrow> Server \<Rightarrow> Server" where
  "websocket_addr a slf =
     (if CHR ''/'' \<in> set a then slf\<lparr>addr := takeWhile (\<lambda>c. c \<noteq> CHR ''/'') (addr slf)\<rparr> else slf)"

text \<open>How \<^verbatim>\<open>Run\<close> ends: it returns (an error or nil), it waits in its \<^verbatim>\<open>select\<close>
  for a signal or for the close signal, or a panic of \<^verbatim>\<open>Run\<close> or of a task it started
  takes the process down.\<close>

datatype run_result = Returned "error option" | Waiting | Crashed fault

definition run_finish :: "env \<Rightarrow> Server \<Rightarrow> Server \<times> run_result" where
  "run_finish e slf =
     (if \<not> multiple slf then
        (case fire e StartFinishEvent (logs (LogRunningInfo (network slf) (addr slf)) slf) of
           (s1, Panic f) \<Rightarrow> (s1, Crashed f)
         | (s1, _) \<Rightarrow> (s1\<lparr>runWaiting := True\<rparr>, Waiting))
      else
        (case fire e StartFinishEvent slf of
           (s1, Panic f) \<Rightarrow> (s1, Crashed f)
         | (s1, _) \<Rightarrow> (s1, Returned None)))"

definition after_task :: "env \<Rightarrow> Server \<times> outcome \<Rightarrow> Server \<times> run_result" where
  "after_task e r = (case r of (s1, Panic f) \<Rightarrow> (s1, Crashed f) | (s1, _) \<Rightarrow> run_finish e s1)"

text \<open>
  \<^verbatim>\<open>Run\<close>. The tasks it starts with \<^verbatim>\<open>go\<close> run beside it; the model takes the
  schedule in which the started task runs first, as far as it gets (\<^verbatim>\<open>go callback()\<close>
  comes after the pool and the queues are in place, so the task always sees them), and
  \<^verbatim>\<open>Run\<close> then goes on to its last part. \<^verbatim>\<open>event.check()\<close>, the TLS variants of the
  serve calls and the production switches of the log and of gin are calls into other
  files and libraries that leave the fields alone.
\<close>

definition Run :: "env \<Rightarrow> Server \<Rightarrow> string \<Rightarrow> Server \<times> run_result" where
  "Run e slf a =
     (if \<not> event slf then (slf, Returned (Some ErrConstructed))
      else
        (let s = slf\<lparr>addr := a\<rparr>
         in (case network s of
               NetworkGRPC \<Rightarrow>
                 (case listen e of
                    Some err \<Rightarrow> (s, Returned (Some err))
                  | None \<Rightarrow> after_task e (serve_task e s))
             | NetworkKcp \<Rightarrow>
                 (case listen e of
                    Some err \<Rightarrow> (s, Returned (Some err))
                  | None \<Rightarrow> after_task e (accept_task e (connectionInitHandle s)))
             | NetworkHttp \<Rightarrow> after_task e (serve_task e s)
             | NetworkWebsocket \<Rightarrow>
                 after_task e (serve_task e (websocket_addr a (connectionInitHandle s)))
             | NetworkOther n \<Rightarrow> (s, Returned (Some ErrCanNotSupportNetwork))
             | _ \<Rightarrow> after_task e (serve_task e (connectionInitHandle s)))))"

text \<open>The branch of the \<^verbatim>\<open>select\<close> that a termination signal takes.\<close>

definition Run_signal :: "env \<Rightarrow> Server \<Rightarrow> Server \<times> outcome" where
  "Run_signal e slf = Shutdown e (slf\<lparr>runWaiting := False\<rparr>) None []"

subsection \<open>The read loop of a WebSocket connection\<close>

text \<open>One turn of the loop: \<^verbatim>\<open>SetReadDeadline\<close> fails, \<^verbatim>\<open>ReadMessage\<close> fails, or a
  frame arrives (its sub-type, its payload, and where the map range of the push starts).
  At the end of the list the loop waits in \<^verbatim>\<open>ReadMessage\<close>.\<close>

datatype ws_read = DeadlineError error | ReadError error | Frame int bytes nat

definition supported :: "(int \<times> bool) list \<Rightarrow> int \<Rightarrow> bool" where
  "supported m messageType = (case map_of m messageType of None \<Rightarrow> False | Some b \<Rightarrow> b)"

fun read_loop :: "string \<Rightarrow> Conn \<Rightarrow> ws_read list \<Rightarrow> Server \<Rightarrow> Server \<times> outcome" where
  "read_loop st conn [] slf = (slf, Block)"
| "read_loop st conn (DeadlineError err # rs) slf = (slf, Panic (FaultError err))"
| "read_loop st conn (ReadError readErr # rs) slf = (slf, Panic (FaultError readErr))"
| "read_loop st conn (Frame messageType packet k # rs) slf =
     (if length (supportMessageTypes slf) > 0 \<and> \<not> supported (supportMessageTypes slf) messageType
      then (slf, Panic (FaultError ErrWebsocketIllegalMessageType))
      else andThen
             (PushMessage slf k st MessageTypePacket [VConn conn, VBytes packet, VInt messageType])
             (read_loop st conn rs))"

text \<open>The handler of an upgraded request from the connection-opened hook on; \<open>conn\<close> is the
  connection that \<open>newWebsocketConn\<close> built. The deferred function turns a panic of the
  loop into the connection-closed hook, and the handler returns.\<close>

definition websocket_connection :: "env \<Rightarrow> Conn \<Rightarrow> ws_read list \<Rightarrow> Server \<Rightarrow> Server \<times> outcome" where
  "websocket_connection e conn reads slf =
     andThen (fire e (ConnectionOpenedEvent conn) slf) (\<lambda>s1.
       (case read_loop (stack e) conn reads s1 of
          (s2, Panic err) \<Rightarrow> fire e (ConnectionClosedEvent conn) s2
        | (s2, out) \<Rightarrow> (s2, out)))"

subsection \<open>A running pipeline\<close>

text \<open>The state in which the engine pushes and dispatches: the pool is there and open,
  there is at least one shard queue, the keys of the shard map are distinct (it is a map),
  and no queue was closed.\<close>

definition running :: "Server \<Rightarrow> bool" where
  "running slf \<longleftrightarrow>
     (case messagePool slf of None \<Rightarrow> False | Some p \<Rightarrow> \<not> closed p) \<and>
     messageChannel slf \<noteq> [] \<and> distinct (map fst (messageChannel slf)) \<and>
     list_all (\<lambda>ic. \<not> ch_closed (snd ic)) (messageChannel slf)"

subsection \<open>A plain environment\<close>

text \<open>Every hook returns, the listener binds and keeps serving, the stop calls succeed, and
  a range over the shard map starts at its first entry.\<close>

definition quiet :: env where
  "quiet = \<lparr>hooks = (\<lambda>c. None), listen = None, serve = None, gnetStop = None,
            httpShutdown = None, stack = ''goroutine 1 [running]'', pick = 0\<rparr>"

subsection \<open>The kinds that push a failed serve call\<close>

text \<open>The case list of \<^verbatim>\<open>Run\<close> for gnet (stream, datagram, unix socket) and WebSocket:
  their task is started by \<^verbatim>\<open>connectionInitHandle\<close> and pushes the error of a failed
  serve call.\<close>

definition serving_kind :: "Network \<Rightarrow> bool" where
  "serving_kind net \<longleftrightarrow>
     net = NetworkTcp \<or> net = NetworkTcp4 \<or> net = NetworkTcp6 \<or> net = NetworkUdp \<or>
     net = NetworkUdp4 \<or> net = NetworkUdp6 \<or> net = NetworkUnix \<or> net = NetworkWebsocket"

subsection \<open>Invariants of the pool\<close>

text \<open>The pool is there, and it is closed only when the shutdown flag is set: what
  \<^verbatim>\<open>connectionInitHandle\<close> sets up and \<^verbatim>\<open>Shutdown\<close> keeps.\<close>

definition pool_ok :: "Server \<Rightarrow> bool" where
  "pool_ok slf \<longleftrightarrow>
     (case messagePool slf of None \<Rightarrow> False | Some p \<Rightarrow> isShutdown slf \<or> \<not> closed p)"

text \<open>A pool is clean when it allocates and resets with the closures of \<^verbatim>\<open>Run\<close> and
  every envelope of its free list has the zero kind and no attributes.\<close>

definition clean :: "Message Pool \<Rightarrow> bool" where
  "clean p \<longleftrightarrow>
     generator p = \<lparr>t = 0, attrs = []\<rparr> \<and> releaser p = (\<lambda>d. d\<lparr>t := 0, attrs := []\<rparr>) \<and>
     list_all (\<lambda>m. t m = 0 \<and> attrs m = []) (buffers p)"

definition pool_clean :: "Server \<Rightarrow> bool" where
  "pool_clean slf \<longleftrightarrow> (case messagePool slf of None \<Rightarrow> True | Some p \<Rightarrow> clean p)"

subsection \<open>An environment whose message-error hook panics\<close>

fun error_hook_panics :: "hook_call \<Rightarrow> fault option" where
  "error_hook_panics (MessageErrorEvent msg err) = Some (FaultValue ''message-error hook'')"
| "error_hook_panics c = None"

definition unquiet :: env where
  "unquiet = quiet\<lparr>hooks := error_hook_panics\<rparr>"

section \<open>What the constructor establishes\<close>

lemma supports_loop_log: "\<exists>l. snd (supports_loop ts (m, srv)) = srv\<lparr>log := l\<rparr>"
proof (induction ts arbitrary: m srv)
  case Nil
  have "srv = srv\<lparr>log := log srv\<rparr>" by simp
  then show ?case by (metis supports_loop.simps(1) snd_conv)
next
  case (Cons a ts)
  show ?case
  proof (cases "validWebsocketMessageType a")
    case True
    then show ?thesis using Cons[of "AList.update a True m" srv] by simp
  next
    case False
    obtain l where "snd (supports_loop ts (m, logs (LogOptionWarn ''WitchWebsocketMessageType'') srv))
        = (logs (LogOptionWarn ''WitchWebsocketMessageType'') srv)\<lparr>log := l\<rparr>"
      using Cons by blast
    then show ?thesis using False by (auto simp: logs_def)
  qed
qed

lemma supports_loop_fields:
  "supports_loop ts (m, srv) = (m', srv') \<Longrightarrow>
     messagePool srv' = messagePool srv \<and> network srv' = network srv \<and>
     event srv' = event srv \<and> core srv' = core srv"
  using supports_loop_log[of ts m srv] by auto

lemma apply_option_fields:
  "messagePool (fst (apply_option opt srv)) = messagePool srv \<and>
   network (fst (apply_option opt srv)) = network srv \<and>
   event (fst (apply_option opt srv)) = event srv \<and>
   (1 \<le> core srv \<longrightarrow> 1 \<le> core (fst (apply_option opt srv)))"
  by (cases opt)
     (auto simp: logs_def Let_def dest: supports_loop_fields split: option.splits prod.splits)

lemma apply_options_fields:
  "messagePool (fst (apply_options opts srv)) = messagePool srv \<and>
   network (fst (apply_options opts srv)) = network srv \<and>
   event (fst (apply_options opts srv)) = event srv \<and>
   (1 \<le> core srv \<longrightarrow> 1 \<le> core (fst (apply_options opts srv)))"
proof (induction opts arbitrary: srv)
  case Nil then show ?case by simp
next
  case (Cons opt opts)
  show ?case
  proof (cases "apply_option opt srv")
    case (Pair srv1 out)
    with Cons[of srv1] apply_option_fields[of opt srv] show ?thesis
      by (cases out) auto
  qed
qed

lemma New_fields:
  "messagePool (fst (New net opts)) = None \<and> network (fst (New net opts)) = net \<and>
   event (fst (New net opts)) \<and> 1 \<le> core (fst (New net opts))"
  using apply_options_fields by (simp add: New_def Let_def)

section \<open>A server without the shard pipeline\<close>

lemma PushMessage_nil_pool:
  "messagePool slf = None \<Longrightarrow> PushMessage slf k st mt as = (slf, Panic nilPointerDereference)"
  by (simp add: PushMessage_def)

lemma run_finish_messagePool: "messagePool (fst (run_finish e s)) = messagePool s"
  by (auto simp: run_finish_def fire_def logs_def split: prod.splits outcome.splits option.splits)

lemma serve_task_nil_pool:
  "messagePool s = None \<Longrightarrow> messagePool (fst (serve_task e s)) = None"
  by (auto simp: serve_task_def andThen_def fire_def PushMessage_def
           split: option.splits prod.splits outcome.splits)

lemma after_task_messagePool: "messagePool (fst (after_task e r)) = messagePool (fst r)"
  by (cases r) (auto simp: after_task_def run_finish_messagePool split: outcome.splits)

lemma Run_nil_pool:
  "network slf = NetworkHttp \<or> network slf = NetworkGRPC \<Longrightarrow> messagePool slf = None \<Longrightarrow>
     messagePool (fst (Run e slf a)) = None"
  by (auto simp: Run_def Let_def after_task_messagePool serve_task_nil_pool split: option.splits)

lemma serve_task_crash:
  "messagePool s = None \<Longrightarrow> hooks e StartBeforeEvent = None \<Longrightarrow> serve e = Some err \<Longrightarrow>
     snd (serve_task e s) = Panic nilPointerDereference \<and>
     messageChannel (fst (serve_task e s)) = messageChannel s"
  by (auto simp: serve_task_def andThen_def fire_def PushMessage_def)

lemma Run_crash:
  assumes "network slf = NetworkHttp \<or> network slf = NetworkGRPC" "event slf" "messagePool slf = None"
    "network slf = NetworkGRPC \<longrightarrow> listen e = None" "hooks e StartBeforeEvent = None"
    "serve e = Some err"
  shows "snd (Run e slf a) = Crashed nilPointerDereference \<and>
         messageChannel (fst (Run e slf a)) = messageChannel slf"
proof -
  let ?s = "slf\<lparr>addr := a\<rparr>"
  have p: "messagePool ?s = None" using assms by simp
  obtain s1 where r: "serve_task e ?s = (s1, Panic nilPointerDereference)"
    and m: "messageChannel s1 = messageChannel slf"
    using serve_task_crash[OF p assms(5,6)] by (cases "serve_task e ?s") auto
  show ?thesis using assms r m by (auto simp: Run_def Let_def after_task_def)
qed

text \<open>
  C10. \<^verbatim>\<open>PushMessage\<close> needs the shard pipeline. On the server that \<^verbatim>\<open>New\<close> hands
  back, for every network kind and every option list, the message pool is nil and a push
  panics on it without enqueueing. For HTTP and gRPC that is still so after \<^verbatim>\<open>Run\<close>,
  which never provisions the pool for them; and when their serve call fails (gRPC having
  bound its listener, the before-start hook having returned), the engine's own push of
  the error panics the same way, on a server whose shard queues are as \<^verbatim>\<open>New\<close> left them.
\<close>

theorem PushMessage_without_pipeline:
  "PushMessage (fst (New net opts)) k st mt as = (fst (New net opts), Panic nilPointerDereference) \<and>
   (net = NetworkHttp \<or> net = NetworkGRPC \<longrightarrow>
      PushMessage (fst (Run e (fst (New net opts)) a)) k st mt as
        = (fst (Run e (fst (New net opts)) a), Panic nilPointerDereference) \<and>
      ((net = NetworkGRPC \<longrightarrow> listen e = None) \<and> hooks e StartBeforeEvent = None \<and>
       serve e = Some err \<longrightarrow>
         snd (Run e (fst (New net opts)) a) = Crashed nilPointerDereference \<and>
         messageChannel (fst (Run e (fst (New net opts)) a)) = messageChannel (fst (New net opts))))"
proof -
  let ?s = "fst (New net opts)"
  have p: "messagePool ?s = None" using New_fields by blast
  have f: "network ?s = net" "event ?s" using New_fields by auto
  have 1: "PushMessage ?s k st mt as = (?s, Panic nilPointerDereference)"
    using p by (rule PushMessage_nil_pool)
  have 2: "PushMessage (fst (Run e ?s a)) k st mt as = (fst (Run e ?s a), Panic nilPointerDereference)"
    if "net = NetworkHttp \<or> net = NetworkGRPC"
    using that f p by (intro PushMessage_nil_pool Run_nil_pool) auto
  have 3: "snd (Run e ?s a) = Crashed nilPointerDereference \<and>
           messageChannel (fst (Run e ?s a)) = messageChannel ?s"
    if "net = NetworkHttp \<or> net = NetworkGRPC" "net = NetworkGRPC \<longrightarrow> listen e = None"
       "hooks e StartBeforeEvent = None" "serve e = Some err"
    using that f p by (intro Run_crash) auto
  show ?thesis using 1 2 3 by blast
qed

theorem PushMessage_without_pipeline_witness:
  "PushMessage (fst (Run (quiet\<lparr>serve := Some (ErrExternal ''address already in use'')\<rparr>)
                      (fst (New NetworkHttp [])) '':8080''))
       0 [] MessageTypePacket []
     = (fst (Run (quiet\<lparr>serve := Some (ErrExternal ''address already in use'')\<rparr>)
              (fst (New NetworkHttp [])) '':8080''),
        Panic nilPointerDereference) \<and>
   snd (Run (quiet\<lparr>serve := Some (ErrExternal ''address already in use'')\<rparr>)
          (fst (New NetworkHttp [])) '':8080'')
     = Crashed nilPointerDereference"
  using PushMessage_without_pipeline[of NetworkHttp "[]" 0 "[]" MessageTypePacket "[]"
      "quiet\<lparr>serve := Some (ErrExternal ''address already in use'')\<rparr>" "'':8080''"
      "ErrExternal ''address already in use''"]
  by (simp add: quiet_def)

section \<open>Connections\<close>

text \<open>
  C9. \<^verbatim>\<open>Close\<close> closes the transport handle of the connection and sets the write
  function to nil; a \<^verbatim>\<open>Write\<close> after it panics on the nil function at once and leaves
  the connection, and so the closed handle and what was sent on it, as they were, so that
  every later \<^verbatim>\<open>Write\<close> does the same.
\<close>

theorem Close_then_Write:
  "writef (Close c) = None \<and>
   Write (Close c) d = ((None, Close c), Panic nilPointerDereference) \<and>
   ws (Close (newWebsocketConn h a)) = Some (handle_close h) \<and>
   gn (Close (newGNetConn h a)) = Some (handle_close h) \<and>
   kcp (Close (newKcpConn h a)) = Some (handle_close h) \<and>
   h_closed (handle_close h) \<and> h_sent (handle_close h) = h_sent h"
  by (simp add: Close_def Write_def Let_def newWebsocketConn_def newGNetConn_def
        newKcpConn_def handle_close_def)

text \<open>
  C8, at the input where the code leaves the claim. A WebSocket server is built with the
  outbound sub-type set to text; the option stores it. A write on a connection made by
  \<open>newWebsocketConn\<close> still sends a binary frame: the constructor does not read the
  server's setting.
\<close>

theorem Write_websocket_sub_type:
  "New NetworkWebsocket [WithWebsocketWriteMessageType WebsocketMessageTypeText]
     = (fst (New NetworkWebsocket [WithWebsocketWriteMessageType WebsocketMessageTypeText]), Done) \<and>
   websocketWriteMessageType
       (fst (New NetworkWebsocket [WithWebsocketWriteMessageType WebsocketMessageTypeText]))
     = WebsocketMessageTypeText \<and>
   Write (newWebsocketConn \<lparr>h_closed = False, h_sent = []\<rparr> ''10.0.0.1'') [1, 2]
     = ((None, newWebsocketConn
                 \<lparr>h_closed = False, h_sent = [WsFrame WebsocketMessageTypeBinary [1, 2]]\<rparr>
                 ''10.0.0.1''), Done) \<and>
   WebsocketMessageTypeBinary \<noteq> WebsocketMessageTypeText"
  by (simp add: New_def Let_def validWebsocketMessageType_def WebsocketMessageTypeText_def
        WebsocketMessageTypeBinary_def Write_def newWebsocketConn_def through_def
        handle_send_def BinaryMessage_def)

section \<open>The shard a push lands on\<close>

lemma stamp_eq:
  "stamp msg mt as st = \<lparr>t = mt, attrs = (if mt = MessageTypeError then as @ [VString st] else as)\<rparr>"
  by (cases msg) (simp add: stamp_def Let_def)

lemma update_fresh: "k \<notin> fst ` set m \<Longrightarrow> AList.update k v m = m @ [(k, v)]"
  by (induction m) auto

lemma channels_loop_eq:
  "\<forall>j \<in> fst ` set m. j < i \<Longrightarrow>
     channels_loop i n m = m @ map (\<lambda>j. (j, make_chan)) [i..n - 1]"
proof (induction i n m rule: channels_loop.induct)
  case (1 i n m)
  show ?case
  proof (cases "i < n")
    case True
    have fresh: "i \<notin> fst ` set m" using 1(2) by auto
    have bound: "\<forall>j \<in> fst ` set (AList.update i make_chan m). j < i + 1"
      using 1(2) by (auto simp: update_fresh[OF fresh])
    have "channels_loop i n m = channels_loop (i + 1) n (AList.update i make_chan m)"
      using True by (subst channels_loop.simps) simp
    also have "\<dots> = AList.update i make_chan m @ map (\<lambda>j. (j, make_chan)) [i + 1..n - 1]"
      using 1(1)[OF True bound] .
    also have "\<dots> = m @ map (\<lambda>j. (j, make_chan)) [i..n - 1]"
      using True by (simp add: update_fresh[OF fresh] upto_rec1[of i "n - 1"])
    finally show ?thesis .
  next
    case False
    then show ?thesis by (subst channels_loop.simps) simp
  qed
qed

lemma channels_loop_0: "channels_loop 0 n [] = map (\<lambda>j. (j, make_chan)) [0..n - 1]"
  using channels_loop_eq[of "[]" 0 n] by simp

lemma init_keys: "map fst (messageChannel (connectionInitHandle s)) = [0..core s - 1]"
  by (simp add: connectionInitHandle_def Let_def channels_loop_0 comp_def)

lemma init_running: "1 \<le> core s \<Longrightarrow> running (connectionInitHandle s)"
  by (auto simp: running_def connectionInitHandle_def Let_def channels_loop_0 comp_def NewPool_def
        list_all_iff make_chan_def upto_rec1[of 0 "core s - 1"])

lemma set_update_subset: "set (AList.update k v m) \<subseteq> insert (k, v) (set m)"
  by (induction m) auto

lemma range_first_mem:
  "range_first k m = Some x \<Longrightarrow> x \<in> set m"
  by (auto simp: range_first_def split: if_splits)

lemma range_first_some: "m \<noteq> [] \<Longrightarrow> \<exists>i c. range_first k m = Some (i, c)"
  by (cases "m ! (k mod length m)") (auto simp: range_first_def)

lemma PushMessage_running:
  assumes run: "running slf" and rf: "range_first k (messageChannel slf) = Some (i, c)"
  shows "snd (PushMessage slf k st mt as) = Done"
    and "pending i (fst (PushMessage slf k st mt as)) = pending i slf @ [stamp \<lparr>t = 0, attrs = []\<rparr> mt as st]"
    and "\<And>j. j \<noteq> i \<Longrightarrow> pending j (fst (PushMessage slf k st mt as)) = pending j slf"
    and "map fst (messageChannel (fst (PushMessage slf k st mt as))) = map fst (messageChannel slf)"
    and "running (fst (PushMessage slf k st mt as))"
proof -
  obtain p where p: "messagePool slf = Some p" "\<not> closed p"
    using run by (auto simp: running_def split: option.splits)
  have "\<exists>msg p'. Get p = Inr (msg, p') \<and> closed p' = closed p"
    using p(2) by (cases "buffers p") (simp_all add: Get_def)
  then obtain msg p' where g: "Get p = Inr (msg, p')" and cp: "closed p' = closed p"
    by blast
  have mem: "(i, c) \<in> set (messageChannel slf)" using rf by (rule range_first_mem)
  have dist: "distinct (map fst (messageChannel slf))" using run by (simp add: running_def)
  have open_c: "\<not> ch_closed c" using run mem by (auto simp: running_def list_all_iff)
  have mo: "map_of (messageChannel slf) i = Some c" using dist mem by simp
  let ?m = "stamp msg mt as st"
  have st: "?m = stamp \<lparr>t = 0, attrs = []\<rparr> mt as st" by (simp add: stamp_eq)
  have eq: "PushMessage slf k st mt as =
      (slf\<lparr>messagePool := Some p', messageChannel := AList.update i (c\<lparr>queue := queue c @ [?m]\<rparr>) (messageChannel slf)\<rparr>, Done)"
    using p g rf open_c by (simp add: PushMessage_def Let_def send_def)
  show "snd (PushMessage slf k st mt as) = Done" by (simp add: eq)
  show "pending i (fst (PushMessage slf k st mt as)) = pending i slf @ [stamp \<lparr>t = 0, attrs = []\<rparr> mt as st]"
    using mo st by (simp add: eq pending_def update_conv')
  show "\<And>j. j \<noteq> i \<Longrightarrow> pending j (fst (PushMessage slf k st mt as)) = pending j slf"
    by (simp add: eq pending_def update_conv')
  have ink: "i \<in> fst ` set (messageChannel slf)" using mem by force
  show keys: "map fst (messageChannel (fst (PushMessage slf k st mt as))) = map fst (messageChannel slf)"
    using ink by (simp add: eq update_keys)
  have "list_all (\<lambda>ic. \<not> ch_closed (snd ic)) (AList.update i (c\<lparr>queue := queue c @ [?m]\<rparr>) (messageChannel slf))"
    using run open_c set_update_subset[of i "c\<lparr>queue := queue c @ [?m]\<rparr>" "messageChannel slf"]
    by (auto simp: running_def list_all_iff)
  moreover have "AList.update i (c\<lparr>queue := queue c @ [?m]\<rparr>) (messageChannel slf) \<noteq> []"
    using mem by (cases "messageChannel slf") auto
  ultimately show "running (fst (PushMessage slf k st mt as))"
    using dist keys p cp by (simp add: eq running_def)
qed

text \<open>
  C1, as the code has it. \<^verbatim>\<open>connectionInitHandle\<close> makes the shard queues \<open>0\<close> to
  \<open>core - 1\<close>. On a running pipeline a push returns and appends the stamped envelope to
  exactly one queue, the one the range over the shard map yields first; the other queues
  stay as they were. When shard 0 is the only one (core count 1) that queue is shard 0,
  wherever the range starts. A push leaves the pipeline running and the shard keys as
  they were, so the same holds for every later push.
\<close>

theorem PushMessage_one_shard:
  "(1 \<le> core s \<longrightarrow>
      running (connectionInitHandle s) \<and>
      map fst (messageChannel (connectionInitHandle s)) = [0..core s - 1]) \<and>
   (running slf \<longrightarrow>
      (\<exists>i c. range_first k (messageChannel slf) = Some (i, c) \<and>
         snd (PushMessage slf k st mt as) = Done \<and>
         pending i (fst (PushMessage slf k st mt as))
           = pending i slf @ [\<lparr>t = mt, attrs = (if mt = MessageTypeError then as @ [VString st] else as)\<rparr>] \<and>
         (\<forall>j. j \<noteq> i \<longrightarrow> pending j (fst (PushMessage slf k st mt as)) = pending j slf) \<and>
         (map fst (messageChannel slf) = [0] \<longrightarrow> i = 0)) \<and>
      running (fst (PushMessage slf k st mt as)) \<and>
      map fst (messageChannel (fst (PushMessage slf k st mt as))) = map fst (messageChannel slf))"
proof -
  have A: "running (connectionInitHandle s) \<and>
      map fst (messageChannel (connectionInitHandle s)) = [0..core s - 1]" if "1 \<le> core s"
    using that init_running init_keys by blast
  have B: "(\<exists>i c. range_first k (messageChannel slf) = Some (i, c) \<and>
         snd (PushMessage slf k st mt as) = Done \<and>
         pending i (fst (PushMessage slf k st mt as))
           = pending i slf @ [\<lparr>t = mt, attrs = (if mt = MessageTypeError then as @ [VString st] else as)\<rparr>] \<and>
         (\<forall>j. j \<noteq> i \<longrightarrow> pending j (fst (PushMessage slf k st mt as)) = pending j slf) \<and>
         (map fst (messageChannel slf) = [0] \<longrightarrow> i = 0)) \<and>
      running (fst (PushMessage slf k st mt as)) \<and>
      map fst (messageChannel (fst (PushMessage slf k st mt as))) = map fst (messageChannel slf)"
    if run: "running slf"
  proof -
    have ne: "messageChannel slf \<noteq> []" using run by (simp add: running_def)
    obtain i c where rf: "range_first k (messageChannel slf) = Some (i, c)"
      using range_first_some[OF ne] by blast
    have "i \<in> set (map fst (messageChannel slf))"
      using range_first_mem[OF rf] by force
    then have zero: "map fst (messageChannel slf) = [0] \<longrightarrow> i = 0" by auto
    note P = PushMessage_running[OF run rf, where st=st and mt=mt and as=as]
    show ?thesis
      using rf zero P(1) P(2) P(3) P(4) P(5) by (auto simp: stamp_eq)
  qed
  show ?thesis using A B by blast
qed

theorem PushMessage_one_shard_witness:
  "running (connectionInitHandle (fst (New NetworkTcp []))) \<and>
   pending 0 (fst (PushMessage (connectionInitHandle (fst (New NetworkTcp []))) 7 [] MessageTypePacket []))
     = [\<lparr>t = MessageTypePacket, attrs = []\<rparr>]"
proof -
  let ?s = "fst (New NetworkTcp [])"
  have c: "core ?s = 1" by (simp add: New_def Let_def)
  have p0: "pending 0 (connectionInitHandle ?s) = []"
    by (simp add: pending_def connectionInitHandle_def Let_def channels_loop_0 c make_chan_def)
  have ne: "MessageTypePacket \<noteq> MessageTypeError"
    by (simp add: MessageTypePacket_def MessageTypeError_def)
  show ?thesis
    using PushMessage_one_shard[of ?s "connectionInitHandle ?s" 7 "[]" MessageTypePacket "[]"] c p0 ne
    by auto
qed

lemma two_core_server:
  "messagePool (connectionInitHandle (fst (New NetworkTcp [WithMultiCore 2])))
     = Some (NewPool 100 \<lparr>t = 0, attrs = []\<rparr> (\<lambda>d. d\<lparr>t := 0, attrs := []\<rparr>)) \<and>
   messageChannel (connectionInitHandle (fst (New NetworkTcp [WithMultiCore 2])))
     = [(0, make_chan), (1, make_chan)]"
  by (simp add: New_def Let_def connectionInitHandle_def channels_loop_0 upto_rec1)

text \<open>C1 as stated, at core count 2: the same push lands on shard 0 when the range over the
  shard map starts at its first entry and on shard 1 when it starts at the second.\<close>

theorem PushMessage_shard_counterexample:
  "pending 0 (fst (PushMessage (connectionInitHandle (fst (New NetworkTcp [WithMultiCore 2]))) 0 [] MessageTypePacket []))
     = [\<lparr>t = MessageTypePacket, attrs = []\<rparr>] \<and>
   pending 1 (fst (PushMessage (connectionInitHandle (fst (New NetworkTcp [WithMultiCore 2]))) 0 [] MessageTypePacket []))
     = [] \<and>
   pending 0 (fst (PushMessage (connectionInitHandle (fst (New NetworkTcp [WithMultiCore 2]))) 1 [] MessageTypePacket []))
     = [] \<and>
   pending 1 (fst (PushMessage (connectionInitHandle (fst (New NetworkTcp [WithMultiCore 2]))) 1 [] MessageTypePacket []))
     = [\<lparr>t = MessageTypePacket, attrs = []\<rparr>]"
  using two_core_server
  by (simp add: PushMessage_def NewPool_def Get_def range_first_def Let_def send_def make_chan_def
        stamp_eq pending_def MessageTypePacket_def MessageTypeError_def)

section \<open>Failures of the listener\<close>

lemma handler_error:
  "handler e s \<lparr>t = MessageTypeError, attrs = [VError err, VAction action, VString st]\<rparr> =
     (if action = MessageErrorActionNone then (logs (LogErrorWithStack st err) s, Done)
      else if action = MessageErrorActionShutdown then Shutdown e s (Some err) [st]
      else (logs (LogNotSupportAction action) s, Done))"
  by (simp add: handler_def MessageTypeError_def MessageTypePacket_def)

lemma map_of_const: "map_of (map (\<lambda>j. (j, v)) xs) j = (if j \<in> set xs then Some v else None)"
  by (induction xs) auto

lemma pending_init: "pending j (connectionInitHandle s) = []"
  by (simp add: pending_def connectionInitHandle_def Let_def channels_loop_0 map_of_const make_chan_def)

lemma run_finish_pending: "pending j (fst (run_finish e s)) = pending j s"
  by (auto simp: run_finish_def fire_def logs_def pending_def split: prod.splits outcome.splits option.splits)

lemma serve_failure_pushed:
  assumes run: "running s" and emp: "\<And>j. pending j s = []"
    and hk: "hooks e StartBeforeEvent = None" and sv: "serve e = Some err"
  shows "\<exists>i. pending i (fst (after_task e (serve_task e s)))
            = [\<lparr>t = MessageTypeError, attrs = [VError err, VAction MessageErrorActionShutdown, VString (stack e)]\<rparr>] \<and>
          (\<forall>j. j \<noteq> i \<longrightarrow> pending j (fst (after_task e (serve_task e s))) = [])"
proof -
  let ?s1 = "s\<lparr>events := events s @ [StartBeforeEvent]\<rparr>"
  let ?as = "[VError err, VAction MessageErrorActionShutdown]"
  let ?P = "PushMessage ?s1 (pick e) (stack e) MessageTypeError ?as"
  have st: "serve_task e s = ?P"
    using hk sv by (simp add: serve_task_def andThen_def fire_def)
  have run1: "running ?s1" using run by (simp add: running_def)
  have emp1: "pending j ?s1 = []" for j using emp[of j] by (simp add: pending_def)
  have ne: "messageChannel ?s1 \<noteq> []" using run1 by (simp add: running_def)
  obtain i c where rf: "range_first (pick e) (messageChannel ?s1) = Some (i, c)"
    using range_first_some[OF ne] by blast
  note P = PushMessage_running[OF run1 rf, where st="stack e" and mt=MessageTypeError and as="?as"]
  obtain s2 where p2: "?P = (s2, Done)" using P(1) by (cases ?P) auto
  have at: "fst (after_task e (serve_task e s)) = fst (run_finish e s2)"
    by (simp add: st p2 after_task_def)
  have "pending i (fst (run_finish e s2)) = [stamp \<lparr>t = 0, attrs = []\<rparr> MessageTypeError ?as (stack e)]"
    using P(2) emp1 p2 by (simp add: run_finish_pending)
  moreover have "pending j (fst (run_finish e s2)) = []" if "j \<noteq> i" for j
    using P(3)[OF that] emp1 p2 by (simp add: run_finish_pending)
  ultimately show ?thesis by (auto simp: at stamp_eq)
qed

lemma websocket_addr_running: "running (websocket_addr a s) = running s"
  by (simp add: websocket_addr_def running_def)

lemma websocket_addr_pending: "pending j (websocket_addr a s) = pending j s"
  by (simp add: websocket_addr_def pending_def)

lemma Run_serve_failure:
  assumes k: "serving_kind (network slf)" and ev: "event slf" and c: "1 \<le> core slf"
    and hk: "hooks e StartBeforeEvent = None" and sv: "serve e = Some err"
  shows "\<exists>i. pending i (fst (Run e slf a))
            = [\<lparr>t = MessageTypeError, attrs = [VError err, VAction MessageErrorActionShutdown, VString (stack e)]\<rparr>] \<and>
          (\<forall>j. j \<noteq> i \<longrightarrow> pending j (fst (Run e slf a)) = [])"
proof -
  let ?s = "slf\<lparr>addr := a\<rparr>"
  have c': "1 \<le> core ?s" using c by simp
  show ?thesis
  proof (cases "network slf = NetworkWebsocket")
    case True
    have "Run e slf a = after_task e (serve_task e (websocket_addr a (connectionInitHandle ?s)))"
      using True ev by (simp add: Run_def Let_def)
    then show ?thesis
      using serve_failure_pushed[of "websocket_addr a (connectionInitHandle ?s)" e err]
        init_running[OF c'] hk sv
      by (simp add: websocket_addr_running websocket_addr_pending pending_init)
  next
    case False
    have "Run e slf a = after_task e (serve_task e (connectionInitHandle ?s))"
      using False k ev by (auto simp: Run_def Let_def serving_kind_def)
    then show ?thesis
      using serve_failure_pushed[of "connectionInitHandle ?s" e err] init_running[OF c'] hk sv
      by (simp add: pending_init)
  qed
qed

lemma Run_bind_failure:
  assumes "network slf = NetworkGRPC \<or> network slf = NetworkKcp" "event slf" "listen e = Some err"
  shows "Run e slf a = (slf\<lparr>addr := a\<rparr>, Returned (Some err))"
  using assms by (auto simp: Run_def Let_def)

text \<open>
  C4, as the code has it. For the stream, datagram, unix-socket and WebSocket kinds, when
  the before-start hook has returned and the serve call of the listener fails, \<^verbatim>\<open>Run\<close>
  leaves exactly one envelope in the shard queues: an error envelope with that error, the
  shutdown directive and the stack. The handler of such an envelope is \<^verbatim>\<open>Shutdown\<close>
  with that error and stack, run by the dispatch loop. For gRPC and KCP a failure to bind
  makes \<^verbatim>\<open>Run\<close> return the error, with nothing done but the address stored.
\<close>

theorem listener_failure_routing:
  "(serving_kind net \<and> hooks e StartBeforeEvent = None \<and> serve e = Some err \<longrightarrow>
      (\<exists>i. pending i (fst (Run e (fst (New net opts)) a))
              = [\<lparr>t = MessageTypeError,
                  attrs = [VError err, VAction MessageErrorActionShutdown, VString (stack e)]\<rparr>] \<and>
            (\<forall>j. j \<noteq> i \<longrightarrow> pending j (fst (Run e (fst (New net opts)) a)) = []))) \<and>
   handler e' slf \<lparr>t = MessageTypeError,
                   attrs = [VError err, VAction MessageErrorActionShutdown, VString st]\<rparr>
     = Shutdown e' slf (Some err) [st] \<and>
   ((net = NetworkGRPC \<or> net = NetworkKcp) \<and> listen e = Some err \<longrightarrow>
      Run e (fst (New net opts)) a = ((fst (New net opts))\<lparr>addr := a\<rparr>, Returned (Some err)))"
proof -
  let ?s = "fst (New net opts)"
  have f: "network ?s = net" "event ?s" "1 \<le> core ?s" using New_fields by auto
  have 1: "\<exists>i. pending i (fst (Run e ?s a))
              = [\<lparr>t = MessageTypeError,
                  attrs = [VError err, VAction MessageErrorActionShutdown, VString (stack e)]\<rparr>] \<and>
            (\<forall>j. j \<noteq> i \<longrightarrow> pending j (fst (Run e ?s a)) = [])"
    if "serving_kind net" "hooks e StartBeforeEvent = None" "serve e = Some err"
    using that f by (intro Run_serve_failure) auto
  have 2: "handler e' slf \<lparr>t = MessageTypeError,
                   attrs = [VError err, VAction MessageErrorActionShutdown, VString st]\<rparr>
     = Shutdown e' slf (Some err) [st]"
    by (simp add: handler_error MessageErrorActionShutdown_def MessageErrorActionNone_def)
  have 3: "Run e ?s a = (?s\<lparr>addr := a\<rparr>, Returned (Some err))"
    if "net = NetworkGRPC \<or> net = NetworkKcp" "listen e = Some err"
    using that f by (intro Run_bind_failure) auto
  show ?thesis using 1 2 3 by blast
qed

theorem listener_failure_routing_witness:
  "pending 0 (fst (Run (quiet\<lparr>serve := Some (ErrExternal ''address already in use'')\<rparr>)
                     (fst (New NetworkTcp [])) '':8888''))
     = [\<lparr>t = MessageTypeError,
         attrs = [VError (ErrExternal ''address already in use''), VAction MessageErrorActionShutdown,
                  VString ''goroutine 1 [running]'']\<rparr>] \<and>
   Run (quiet\<lparr>listen := Some (ErrExternal ''address already in use'')\<rparr>) (fst (New NetworkKcp [])) '':8888''
     = ((fst (New NetworkKcp []))\<lparr>addr := '':8888''\<rparr>, Returned (Some (ErrExternal ''address already in use'')))"
proof -
  let ?err = "ErrExternal ''address already in use''"
  let ?e = "quiet\<lparr>serve := Some ?err\<rparr>"
  let ?r = "fst (Run ?e (fst (New NetworkTcp [])) '':8888'')"
  have keys: "map fst (messageChannel ?r) = [0]"
    by (simp add: Run_def New_def Let_def connectionInitHandle_def channels_loop_0 quiet_def
          serve_task_def andThen_def fire_def PushMessage_def NewPool_def Get_def range_first_def
          send_def make_chan_def after_task_def run_finish_def logs_def)
  have out: "pending j ?r = []" if "j \<noteq> 0" for j
    using that keys by (auto simp: pending_def split: option.splits dest!: map_of_SomeD)
  have a: "\<exists>i. pending i ?r = [\<lparr>t = MessageTypeError, attrs = [VError ?err, VAction MessageErrorActionShutdown, VString (stack ?e)]\<rparr>] \<and>
            (\<forall>j. j \<noteq> i \<longrightarrow> pending j ?r = [])"
    using listener_failure_routing[of NetworkTcp ?e ?err "[]" "'':8888''"]
    by (simp add: serving_kind_def quiet_def)
  then obtain i where i: "pending i ?r = [\<lparr>t = MessageTypeError, attrs = [VError ?err, VAction MessageErrorActionShutdown, VString (stack ?e)]\<rparr>]"
    by blast
  have "i = 0" using i out by (cases "i = 0") auto
  then have 1: "pending 0 ?r = [\<lparr>t = MessageTypeError, attrs = [VError ?err, VAction MessageErrorActionShutdown, VString ''goroutine 1 [running]'']\<rparr>]"
    using i by (simp add: quiet_def)
  have 2: "Run (quiet\<lparr>listen := Some ?err\<rparr>) (fst (New NetworkKcp [])) '':8888''
     = ((fst (New NetworkKcp []))\<lparr>addr := '':8888''\<rparr>, Returned (Some ?err))"
    using listener_failure_routing[of NetworkKcp "quiet\<lparr>listen := Some ?err\<rparr>" ?err "[]" "'':8888''"]
    by (simp add: quiet_def)
  show ?thesis using 1 2 by blast
qed

text \<open>C4 as stated, for gRPC with a listener that cannot bind: \<^verbatim>\<open>Run\<close> returns the error
  itself; there is no queue and no envelope, and the shutdown flag is not set.\<close>

theorem listener_failure_counterexample:
  "snd (Run (quiet\<lparr>listen := Some (ErrExternal ''address already in use'')\<rparr>) (fst (New NetworkGRPC [])) '':9000'')
     = Returned (Some (ErrExternal ''address already in use'')) \<and>
   messageChannel (fst (Run (quiet\<lparr>listen := Some (ErrExternal ''address already in use'')\<rparr>) (fst (New NetworkGRPC [])) '':9000'')) = [] \<and>
   \<not> isShutdown (fst (Run (quiet\<lparr>listen := Some (ErrExternal ''address already in use'')\<rparr>) (fst (New NetworkGRPC [])) '':9000''))"
  by (simp add: Run_def New_def Let_def quiet_def)

section \<open>Error envelopes\<close>

text \<open>
  C6. On a running pipeline \<^verbatim>\<open>PushMessage(Error, err, action)\<close> returns and appends to
  the chosen queue the envelope with the stack as last attribute. The handler of that
  envelope logs the error with the stack and changes nothing else for the directive none,
  is \<^verbatim>\<open>Shutdown\<close> with that error and stack for the directive shutdown, and for every
  other directive only logs the warning.
\<close>

theorem Error_envelope:
  "(running slf \<longrightarrow>
      (\<exists>i c. range_first k (messageChannel slf) = Some (i, c) \<and>
         snd (PushMessage slf k st MessageTypeError [VError err, VAction action]) = Done \<and>
         pending i (fst (PushMessage slf k st MessageTypeError [VError err, VAction action]))
           = pending i slf @
             [\<lparr>t = MessageTypeError, attrs = [VError err, VAction action, VString st]\<rparr>])) \<and>
   handler e s \<lparr>t = MessageTypeError, attrs = [VError err, VAction action, VString st]\<rparr> =
     (if action = MessageErrorActionNone then (logs (LogErrorWithStack st err) s, Done)
      else if action = MessageErrorActionShutdown then Shutdown e s (Some err) [st]
      else (logs (LogNotSupportAction action) s, Done))"
proof -
  have A: "\<exists>i c. range_first k (messageChannel slf) = Some (i, c) \<and>
         snd (PushMessage slf k st MessageTypeError [VError err, VAction action]) = Done \<and>
         pending i (fst (PushMessage slf k st MessageTypeError [VError err, VAction action]))
           = pending i slf @
             [\<lparr>t = MessageTypeError, attrs = [VError err, VAction action, VString st]\<rparr>]"
    if run: "running slf"
  proof -
    have ne: "messageChannel slf \<noteq> []" using run by (simp add: running_def)
    obtain i c where rf: "range_first k (messageChannel slf) = Some (i, c)"
      using range_first_some[OF ne] by blast
    note P = PushMessage_running[OF run rf, where st=st and mt=MessageTypeError
        and as="[VError err, VAction action]"]
    show ?thesis using rf P(1) P(2) by (auto simp: stamp_eq)
  qed
  show ?thesis using A handler_error by blast
qed

theorem Error_envelope_witness:
  "running (connectionInitHandle (fst (New NetworkTcp []))) \<and>
   snd (PushMessage (connectionInitHandle (fst (New NetworkTcp []))) 0 ''stack'' MessageTypeError
          [VError (ErrExternal ''lost''), VAction MessageErrorActionNone]) = Done \<and>
   handler quiet (connectionInitHandle (fst (New NetworkTcp [])))
       \<lparr>t = MessageTypeError,
        attrs = [VError (ErrExternal ''lost''), VAction MessageErrorActionNone, VString ''stack'']\<rparr>
     = (logs (LogErrorWithStack ''stack'' (ErrExternal ''lost''))
          (connectionInitHandle (fst (New NetworkTcp []))), Done)"
proof -
  let ?s = "connectionInitHandle (fst (New NetworkTcp []))"
  have r: "running ?s" using init_running[of "fst (New NetworkTcp [])"] New_fields by blast
  show ?thesis
    using r Error_envelope[of ?s 0 "''stack''" "ErrExternal ''lost''" MessageErrorActionNone quiet ?s]
    by auto
qed

end
